theory Spec2Isabelle
  imports Main "HOL-Library.AList"
begin

section \<open>Python values, exceptions and the library calls of the Markdown renderer\<close>

text \<open>
  The parser of \<^verbatim>\<open>unstructured_parser.py\<close> works on decoded JSON (the element dictionaries
  of the parsing library and of the remote API) and on Python strings. A Python \<^verbatim>\<open>str\<close>
  is held as the list of the bytes of its UTF-8 encoding, a \<^verbatim>\<open>bytes\<close> object as the
  list of its bytes: concatenation, repetition, \<^verbatim>\<open>join\<close>, \<^verbatim>\<open>startswith\<close> and equality
  act on the encoding as they act on the code points. Floats are left out of the values.
\<close>

type_synonym str = string
type_synonym bytes = string

datatype pyval =
    PNone
  | PBool bool
  | PInt int
  | PStr str
  | PList "pyval list"
  | PDict "(str \<times> pyval) list"

text \<open>
  The response object of the HTTP library: its status code and what \<^verbatim>\<open>response.json()\<close>
  gives (\<open>None\<close>: the body is not JSON). An exception is a value; the subclasses of
  \<^verbatim>\<open>requests.exceptions.RequestException\<close> (\<^verbatim>\<open>HTTPError\<close>, \<^verbatim>\<open>ConnectionError\<close>, ...) are
  one constructor that carries the subclass name and the \<^verbatim>\<open>response\<close> attribute.
\<close>

record Response =
  status_code :: int
  json_body :: "pyval list option"

datatype exn =
    KeyError str
  | TypeError str
  | ValueError str
  | UnicodeDecodeError
  | UnboundLocalError str
  | ImportError str
  | Exception str
  | RecordParseError str
  | RequestException str "Response option"

text \<open>Truth value of a Python object, as \<^verbatim>\<open>x or 1\<close> and \<^verbatim>\<open>if x\<close> test it.\<close>

fun truthy :: "pyval \<Rightarrow> bool" where
  "truthy PNone = False"
| "truthy (PBool b) = b"
| "truthy (PInt i) = (i \<noteq> 0)"
| "truthy (PStr s) = (s \<noteq> [])"
| "truthy (PList xs) = (xs \<noteq> [])"
| "truthy (PDict kvs) = (kvs \<noteq> [])"

text \<open>
  \<^verbatim>\<open>"#" * v\<close>: a string repeated \<open>v\<close> times when \<open>v\<close> is an int (a bool is an int; a
  negative count gives the empty string), a \<^verbatim>\<open>TypeError\<close> for any other value.
\<close>

fun py_mul_str :: "str \<Rightarrow> pyval \<Rightarrow> exn + str" where
  "py_mul_str s (PInt n) = Inr (concat (replicate (nat n) s))"
| "py_mul_str s (PBool b) = Inr (if b then s else [])"
| "py_mul_str s v = Inl (TypeError ''can't multiply sequence by non-int'')"

text \<open>Decimal digits of an int, as \<^verbatim>\<open>str\<close> prints it.\<close>

fun show_nat :: "nat \<Rightarrow> str" where
  "show_nat n = (if n < 10 then [char_of (48 + n)]
                 else show_nat (n div 10) @ [char_of (48 + n mod 10)])"

declare show_nat.simps [simp del]

definition show_int :: "int \<Rightarrow> str" where
  "show_int i = (if i < 0 then CHR ''-'' # show_nat (nat (- i)) else show_nat (nat i))"

text \<open>
  \<^verbatim>\<open>str(v)\<close>, which is also what an f-string field \<^verbatim>\<open>{v}\<close> prints. The text of a list or
  a dict is Python's \<^verbatim>\<open>repr\<close>, a built-in that is not part of this repository: it is the
  parameter \<open>py_repr\<close>.
\<close>

fun py_str :: "(pyval \<Rightarrow> str) \<Rightarrow> pyval \<Rightarrow> str" where
  "py_str py_repr PNone = ''None''"
| "py_str py_repr (PBool b) = (if b then ''True'' else ''False'')"
| "py_str py_repr (PInt i) = show_int i"
| "py_str py_repr (PStr s) = s"
| "py_str py_repr v = py_repr v"

text \<open>
  \<^verbatim>\<open>dpath.util.get(obj, glob, default=...)\<close> of the dpath library, for a glob without
  wildcards: the glob is split at \<^verbatim>\<open>/\<close> and followed through nested dictionaries; the
  value found is returned, a missing key gives the default when one is supplied and raises
  \<^verbatim>\<open>KeyError(glob)\<close> when none is. A dictionary is the list of its items (keys distinct,
  in insertion order).
\<close>

fun split_on :: "char \<Rightarrow> str \<Rightarrow> str list" where
  "split_on c [] = [[]]"
| "split_on c (x # xs) =
     (if x = c then [] # split_on c xs
      else (case split_on c xs of [] \<Rightarrow> [[x]] | w # ws \<Rightarrow> (x # w) # ws))"

fun lookup_path :: "pyval \<Rightarrow> str list \<Rightarrow> pyval option" where
  "lookup_path v [] = Some v"
| "lookup_path (PDict kvs) (k # ks) =
     (case map_of kvs k of None \<Rightarrow> None | Some v \<Rightarrow> lookup_path v ks)"
| "lookup_path v (k # ks) = None"

definition dpath_get :: "pyval \<Rightarrow> str \<Rightarrow> pyval option \<Rightarrow> exn + pyval" where
  "dpath_get obj glob dflt =
     (case lookup_path obj (split_on CHR ''/'' glob) of
        Some v \<Rightarrow> Inr v
      | None \<Rightarrow> (case dflt of Some d \<Rightarrow> Inr d | None \<Rightarrow> Inl (KeyError glob)))"

section \<open>The Markdown renderer\<close>

text \<open>
  \<^verbatim>\<open>UnstructuredParser._convert_to_markdown\<close>. Every \<^verbatim>\<open>dpath.util.get\<close> of the source is
  a lookup of the model, in the source's order; a lookup that raises ends the rendering.
\<close>

definition convert_to_markdown :: "(pyval \<Rightarrow> str) \<Rightarrow> pyval \<Rightarrow> exn + str" where
  "convert_to_markdown py_repr el =
     (case dpath_get el ''type'' None of
        Inl e \<Rightarrow> Inl e
      | Inr ty1 \<Rightarrow>
          if ty1 = PStr ''Title'' then
            (case dpath_get el ''metadata/category_depth'' (Some (PInt 1)) of
               Inl e \<Rightarrow> Inl e
             | Inr d \<Rightarrow>
                 (case py_mul_str ''#'' (if truthy d then d else PInt 1) of
                    Inl e \<Rightarrow> Inl e
                  | Inr heading_str \<Rightarrow>
                      (case dpath_get el ''text'' None of
                         Inl e \<Rightarrow> Inl e
                       | Inr t \<Rightarrow> Inr (heading_str @ '' '' @ py_str py_repr t))))
          else
            (case dpath_get el ''type'' None of
               Inl e \<Rightarrow> Inl e
             | Inr ty2 \<Rightarrow>
                 if ty2 = PStr ''ListItem'' then
                   (case dpath_get el ''text'' None of
                      Inl e \<Rightarrow> Inl e
                    | Inr t \<Rightarrow> Inr (''- '' @ py_str py_repr t))
                 else
                   (case dpath_get el ''type'' None of
                      Inl e \<Rightarrow> Inl e
                    | Inr ty3 \<Rightarrow>
                        if ty3 = PStr ''Formula'' then
                          (case dpath_get el ''text'' None of
                             Inl e \<Rightarrow> Inl e
                           | Inr t \<Rightarrow>
                               Inr (''```\<newline>'' @ py_str py_repr t @ ''\<newline>```''))
                        else
                          (case dpath_get el ''text'' (Some (PStr '''')) of
                             Inl e \<Rightarrow> Inl e
                           | Inr t \<Rightarrow> Inr (py_str py_repr t)))))"

text \<open>
  \<^verbatim>\<open>UnstructuredParser._render_markdown\<close>: \<^verbatim>\<open>"\n\n".join(...)\<close> over a generator. The
  join first runs the generator to its end (\<open>collect\<close>: the first element that raises ends
  it), then writes the items with the separator before every item but the first.
\<close>

fun collect :: "('a \<Rightarrow> exn + 'b) \<Rightarrow> 'a list \<Rightarrow> exn + 'b list" where
  "collect f [] = Inr []"
| "collect f (x # xs) =
     (case f x of
        Inl e \<Rightarrow> Inl e
      | Inr y \<Rightarrow> (case collect f xs of Inl e \<Rightarrow> Inl e | Inr ys \<Rightarrow> Inr (y # ys)))"

fun join_from :: "str \<Rightarrow> str \<Rightarrow> bool \<Rightarrow> str list \<Rightarrow> str" where
  "join_from sep acc first [] = acc"
| "join_from sep acc first (x # xs) =
     join_from sep (if first then acc @ x else acc @ sep @ x) False xs"

definition py_join :: "str \<Rightarrow> str list \<Rightarrow> str" where
  "py_join sep items = join_from sep [] True items"

definition render_markdown :: "(pyval \<Rightarrow> str) \<Rightarrow> pyval list \<Rightarrow> exn + str" where
  "render_markdown py_repr elements =
     (case collect (convert_to_markdown py_repr) elements of
        Inl e \<Rightarrow> Inl e
      | Inr rendered \<Rightarrow> Inr (py_join ''\<newline>\<newline>'' rendered))"

text \<open>
  The rendering the specification describes: the per-element renderings in input order
  with exactly one blank line between consecutive ones, nothing before the first and
  nothing after the last.
\<close>

fun blank_line_joined :: "str list \<Rightarrow> str" where
  "blank_line_joined [] = []"
| "blank_line_joined [s] = s"
| "blank_line_joined (s # t # ts) = s @ ''\<newline>\<newline>'' @ blank_line_joined (t # ts)"

section \<open>Form fields of the remote request\<close>

text \<open>
  A parameter of the API configuration (\<^verbatim>\<open>APIParameterConfigModel\<close>: its \<^verbatim>\<open>name\<close> and its
  \<^verbatim>\<open>value\<close>, both strings), and a value of the form-field dictionary: one string, or the
  list the loop builds for a repeated name (what \<^verbatim>\<open>isinstance(existing_value, list)\<close>
  tells apart).
\<close>

record APIParameterConfigModel =
  param_name :: str
  param_value :: str

datatype form_value = Scalar str | Multi "str list"

text \<open>
  \<^verbatim>\<open>UnstructuredParser._params_to_dict\<close>. The dictionary is the list of its items in
  insertion order; \<open>AList.update\<close> overwrites the value of a key in place and puts a new
  key last, as a Python dict does. \<open>params_step\<close> is the body of the loop.
\<close>

definition params_step ::
  "(str \<times> form_value) list \<Rightarrow> APIParameterConfigModel \<Rightarrow> (str \<times> form_value) list" where
  "params_step result_dict item =
     (let key = param_name item; v = param_value item in
      case map_of result_dict key of
        Some existing_value \<Rightarrow>
          (case existing_value of
             Multi vs \<Rightarrow> AList.update key (Multi (vs @ [v])) result_dict
           | Scalar x \<Rightarrow> AList.update key (Multi [x, v]) result_dict)
      | None \<Rightarrow> AList.update key (Scalar v) result_dict)"

definition params_to_dict ::
  "APIParameterConfigModel list option \<Rightarrow> (str \<times> form_value) list" where
  "params_to_dict params =
     (case params of None \<Rightarrow> [] | Some items \<Rightarrow> foldl params_step [] items)"

section \<open>File-type detection\<close>

text \<open>
  \<^verbatim>\<open>FileType\<close> is the enumeration of the parsing library; the source names five of its
  members, the others are \<open>OtherFileType\<close> with their name. A \<^verbatim>\<open>RemoteFile\<close> has a URI
  and an optional MIME type. A file handle is its bytes, the read position and the
  \<^verbatim>\<open>name\<close> attribute (\<open>None\<close>: the object has no such attribute; \<open>Some None\<close>: the
  attribute is set to \<^verbatim>\<open>None\<close>).
\<close>

datatype FileType = MD | PDF | DOCX | PPTX | UNK | OtherFileType str

record RemoteFile =
  uri :: str
  mime_type :: "str option"

record handle =
  h_content :: bytes
  h_pos :: nat
  h_name :: "str option option"

text \<open>
  What the run leaves behind, in order: the calls of the library's detector, the warnings
  of the logger, the lines printed, the HTTP requests sent, the waits of the retry loop
  and the calls of the local partition functions.
\<close>

record request =
  url :: str
  headers :: "(str \<times> str) list"
  form_data :: "(str \<times> form_value) list"
  files :: "(str \<times> str \<times> handle \<times> str) list"

datatype event =
    DetectFilename str
  | DetectContent
  | Warn str
  | Print str
  | is_Post: Post request
  | is_Sleep: Sleep nat
  | Partition FileType

text \<open>
  The libraries and the surroundings the parser calls, none of them part of this
  repository, are parameters of the model:
  \<^item> \<open>STR_TO_FILETYPE\<close> and \<open>FILETYPE_TO_MIMETYPE\<close>, the two tables of the parsing library;
  \<^item> \<open>detect_filetype_filename\<close> and \<open>detect_filetype_file\<close>, the library's detector called
    with a file name and with a file object (it reads the object: the second component is
    the position it leaves behind);
  \<^item> \<open>import_unstructured\<close>, the exception of the deferred import if it fails, and the three
    partition functions as the module globals hold them after the import (each returns the
    element dictionaries, or raises, and the position it leaves behind);
  \<^item> \<open>requests_post\<close>, the HTTP call: for the number of requests sent before and the
    request, what \<^verbatim>\<open>requests.post\<close> returns or raises, and the position at which it leaves
    the file object of the request;
  \<^item> \<open>open_file\<close> of the stream reader, \<open>DEPLOYMENT_MODE\<close> of the process environment,
    \<open>format_exc\<close> of \<^verbatim>\<open>traceback\<close> and \<open>env_repr\<close>, Python's \<^verbatim>\<open>repr\<close>.
\<close>

record env =
  STR_TO_FILETYPE :: "str \<Rightarrow> FileType option"
  FILETYPE_TO_MIMETYPE :: "FileType \<Rightarrow> str option"
  detect_filetype_filename :: "str \<Rightarrow> FileType option"
  detect_filetype_file :: "handle \<Rightarrow> FileType option \<times> nat"
  import_unstructured :: "exn option"
  unstructured_partition_pdf :: "(handle \<Rightarrow> (exn + pyval list) \<times> nat) option"
  unstructured_partition_docx :: "(handle \<Rightarrow> (exn + pyval list) \<times> nat) option"
  unstructured_partition_pptx :: "(handle \<Rightarrow> (exn + pyval list) \<times> nat) option"
  requests_post :: "nat \<Rightarrow> request \<Rightarrow> (exn + Response) \<times> nat"
  open_file :: "RemoteFile \<Rightarrow> exn + handle"
  DEPLOYMENT_MODE :: "str option"
  format_exc :: "exn \<Rightarrow> str"
  env_repr :: "pyval \<Rightarrow> str"

text \<open>
  \<^verbatim>\<open>UnstructuredParser._get_filetype\<close>. The MIME type counts when it is truthy (not
  \<^verbatim>\<open>None\<close>, not the empty string) and a key of \<open>STR_TO_FILETYPE\<close>. Otherwise the
  \<^verbatim>\<open>name\<close> attribute of the handle, if it has one, is set to \<^verbatim>\<open>None\<close>, the detector is
  asked for the file name, and only for an answer of \<^verbatim>\<open>None\<close> or \<^verbatim>\<open>FileType.UNK\<close> for the
  content, after which the handle is rewound.
\<close>

definition get_filetype ::
  "env \<Rightarrow> handle \<Rightarrow> RemoteFile \<Rightarrow> event list \<Rightarrow> FileType option \<times> handle \<times> event list" where
  "get_filetype env file remote_file log =
     (case (case mime_type remote_file of
              None \<Rightarrow> None
            | Some m \<Rightarrow> if m \<noteq> [] then STR_TO_FILETYPE env m else None) of
        Some ft \<Rightarrow> (Some ft, file, log)
      | None \<Rightarrow>
          (let file1 = (if h_name file \<noteq> None then file\<lparr>h_name := Some None\<rparr> else file);
               file_type = detect_filetype_filename env (uri remote_file);
               log1 = log @ [DetectFilename (uri remote_file)]
           in if file_type \<noteq> None \<and> file_type \<noteq> Some UNK then (file_type, file1, log1)
              else
                (let (type_based_on_content, p) = detect_filetype_file env file1;
                     file2 = file1\<lparr>h_pos := p\<rparr>;
                     file3 = file2\<lparr>h_pos := 0\<rparr>
                 in (type_based_on_content, file3, log1 @ [DetectContent]))))"

definition supported_file_types :: "FileType list" where
  "supported_file_types = [MD, PDF, DOCX, PPTX]"

section \<open>Reading a file\<close>

text \<open>
  The configuration models (\<^verbatim>\<open>unstructured_format.py\<close> and \<^verbatim>\<open>file_based_stream_config.py\<close>):
  the processing is local or through the API, the format of a stream is the unstructured
  format or another one (CSV, Avro, ...), of which only the name is kept.
\<close>

record APIProcessingConfigModel =
  api_key :: str
  api_url :: str
  parameters :: "APIParameterConfigModel list option"

datatype processing_config =
    LocalProcessingConfigModel
  | APIProcessing APIProcessingConfigModel

record UnstructuredFormat =
  skip_unprocessable_file_types :: "bool option"
  processing :: processing_config

datatype config_format = Unstructured UnstructuredFormat | OtherFormat str

record FileBasedStreamConfig =
  format :: config_format

definition extract_format :: "FileBasedStreamConfig \<Rightarrow> exn + UnstructuredFormat" where
  "extract_format config =
     (case format config of
        Unstructured config_format \<Rightarrow> Inr config_format
      | OtherFormat n \<Rightarrow> Inl (ValueError (''Invalid format config: '' @ n)))"

text \<open>
  \<^verbatim>\<open>bytes.decode("utf-8")\<close>: the bytes are the UTF-8 encoding of a string exactly when they
  are well formed (Unicode, table 3-7: no overlong form, no surrogate, nothing above
  U+10FFFF), and the string is then held as these bytes.
\<close>

definition in_range :: "nat \<Rightarrow> nat \<Rightarrow> char \<Rightarrow> bool" where
  "in_range lo hi c = (lo \<le> of_char c \<and> of_char c \<le> hi)"

fun utf8_valid :: "bytes \<Rightarrow> bool" where
  "utf8_valid [] = True"
| "utf8_valid (a # bs) =
     (if in_range 0x00 0x7F a then utf8_valid bs
      else if in_range 0xC2 0xDF a then
        (case bs of b # r \<Rightarrow> in_range 0x80 0xBF b \<and> utf8_valid r | _ \<Rightarrow> False)
      else if in_range 0xE0 0xEF a then
        (case bs of
           b # c # r \<Rightarrow>
             in_range (if of_char a = (0xE0 :: nat) then 0xA0 else 0x80)
                      (if of_char a = (0xED :: nat) then 0x9F else 0xBF) b \<and>
             in_range 0x80 0xBF c \<and> utf8_valid r
         | _ \<Rightarrow> False)
      else if in_range 0xF0 0xF4 a then
        (case bs of
           b # c # d # r \<Rightarrow>
             in_range (if of_char a = (0xF0 :: nat) then 0x90 else 0x80)
                      (if of_char a = (0xF4 :: nat) then 0x8F else 0xBF) b \<and>
             in_range 0x80 0xBF c \<and> in_range 0x80 0xBF d \<and> utf8_valid r
         | _ \<Rightarrow> False)
      else False)"

datatype contents = Bytes bytes | Str str

definition optional_decode :: "contents \<Rightarrow> exn + str" where
  "optional_decode contents =
     (case contents of
        Bytes b \<Rightarrow> if utf8_valid b then Inr b else Inl UnicodeDecodeError
      | Str s \<Rightarrow> Inr s)"

text \<open>\<^verbatim>\<open>file_handle.read()\<close> and \<^verbatim>\<open>BytesIO(b)\<close>.\<close>

definition read_all :: "handle \<Rightarrow> bytes \<times> handle" where
  "read_all h = (drop (h_pos h) (h_content h), h\<lparr>h_pos := max (h_pos h) (length (h_content h))\<rparr>)"

definition BytesIO :: "bytes \<Rightarrow> handle" where
  "BytesIO b = \<lparr>h_content = b, h_pos = 0, h_name = None\<rparr>"

text \<open>
  \<^verbatim>\<open>UnstructuredParser._handle_unprocessable_file\<close>: a warning when the flag is truthy, a
  \<^verbatim>\<open>RecordParseError\<close> with the URI as its file name when it is \<^verbatim>\<open>False\<close> or \<^verbatim>\<open>None\<close>.
\<close>

definition handle_unprocessable_file ::
  "RemoteFile \<Rightarrow> bool option \<Rightarrow> event list \<Rightarrow> exn option \<times> event list" where
  "handle_unprocessable_file remote_file skip log =
     (if skip = Some True
      then (None, log @ [Warn (''File '' @ uri remote_file @ '' cannot be parsed. Skipping it.'')])
      else (Some (RecordParseError (uri remote_file)), log))"

text \<open>
  The response of the HTTP library: \<^verbatim>\<open>raise_for_status\<close> raises \<^verbatim>\<open>HTTPError\<close>, with the
  response attached, for a status from 400 to 599; \<^verbatim>\<open>Response.ok\<close> is true when it does
  not raise, and the truth value of a response (\<^verbatim>\<open>Response.__bool__\<close>) is \<^verbatim>\<open>ok\<close>.
\<close>

definition raise_for_status :: "Response \<Rightarrow> exn option" where
  "raise_for_status r =
     (if 400 \<le> status_code r \<and> status_code r < 500 then Some (RequestException ''HTTPError'' (Some r))
      else if 500 \<le> status_code r \<and> status_code r < 600 then Some (RequestException ''HTTPError'' (Some r))
      else None)"

definition Response_ok :: "Response \<Rightarrow> bool" where
  "Response_ok r = (raise_for_status r = None)"

definition Response_bool :: "Response \<Rightarrow> bool" where
  "Response_bool r = Response_ok r"

text \<open>
  \<^verbatim>\<open>user_error\<close>: \<^verbatim>\<open>bool(e.response and 400 <= e.response.status_code < 500)\<close> for a
  \<^verbatim>\<open>RequestException\<close>. The \<^verbatim>\<open>and\<close> tests the truth value of the response object before
  it compares the status.
\<close>

definition user_error :: "exn \<Rightarrow> bool" where
  "user_error e =
     (case e of
        RequestException cls response \<Rightarrow>
          (case response of
             None \<Rightarrow> False
           | Some r \<Rightarrow> Response_bool r \<and> (400 \<le> status_code r \<and> status_code r < 500))
      | _ \<Rightarrow> False)"

definition is_RequestException :: "exn \<Rightarrow> bool" where
  "is_RequestException e = (case e of RequestException cls response \<Rightarrow> True | _ \<Rightarrow> False)"

definition posts_sent :: "event list \<Rightarrow> nat" where
  "posts_sent log = length (filter is_Post log)"

text \<open>
  \<^verbatim>\<open>UnstructuredParser._read_file_remotely\<close>: the lookup of the MIME type of the file part
  comes before the request and raises \<^verbatim>\<open>KeyError\<close> for a file type the table lacks. A
  body that is not JSON makes \<^verbatim>\<open>response.json()\<close> raise the \<^verbatim>\<open>JSONDecodeError\<close> of the HTTP
  library, a \<^verbatim>\<open>RequestException\<close> without a response. The JSON of the response is taken to
  be a list, as the type of \<^verbatim>\<open>_render_markdown\<close> says.
\<close>

definition read_file_remotely ::
  "env \<Rightarrow> handle \<Rightarrow> APIProcessingConfigModel \<Rightarrow> FileType \<Rightarrow> event list \<Rightarrow>
     (exn + str) \<times> handle \<times> event list" where
  "read_file_remotely env file_handle fmt filetype log =
     (let hdrs = [(''accept'', ''application/json''), (''unstructured-api-key'', api_key fmt)];
          dat = params_to_dict (parameters fmt)
      in case FILETYPE_TO_MIMETYPE env filetype of
           None \<Rightarrow> (Inl (KeyError ''FILETYPE_TO_MIMETYPE''), file_handle, log)
         | Some mime \<Rightarrow>
             (let file_data = [(''file'', (''filename'', file_handle, mime))];
                  log1 = log @ [Print ''Try request!''];
                  req = \<lparr>url = api_url fmt @ ''/general/v0/general'', headers = hdrs,
                         form_data = dat, files = file_data\<rparr>;
                  (outcome, p) = requests_post env (posts_sent log1) req;
                  fh = file_handle\<lparr>h_pos := p\<rparr>;
                  log2 = log1 @ [Post req]
              in case outcome of
                   Inl e \<Rightarrow> (Inl e, fh, log2)
                 | Inr response \<Rightarrow>
                     (case raise_for_status response of
                        Some e \<Rightarrow> (Inl e, fh, log2)
                      | None \<Rightarrow>
                          (case json_body response of
                             None \<Rightarrow> (Inl (RequestException ''JSONDecodeError'' None), fh, log2)
                           | Some json_response \<Rightarrow>
                               (render_markdown (env_repr env) json_response, fh, log2)))))"

text \<open>
  The decorator \<^verbatim>\<open>backoff.on_exception(backoff.expo, RequestException, max_tries=5,
  giveup=user_error)\<close>: the loop of the backoff library. \<open>tries\<close> counts the calls made so
  far. An exception that is not of the class given propagates at once; one of the class is
  raised again when \<open>giveup\<close> holds of it or the count has reached \<open>max_tries\<close>; otherwise
  the loop sleeps and calls again. The waits of \<^verbatim>\<open>backoff.expo\<close> are 1, 2, 4, ... seconds
  (the library sleeps a random time up to the wait). The loop is \<^verbatim>\<open>while True\<close>: a run
  that never leaves it has the value \<open>None\<close>.
\<close>

partial_function (option) retry_exception ::
  "(exn \<Rightarrow> bool) \<Rightarrow> nat \<Rightarrow> (exn \<Rightarrow> bool) \<Rightarrow>
   (handle \<Rightarrow> event list \<Rightarrow> (exn + str) \<times> handle \<times> event list) \<Rightarrow>
   nat \<Rightarrow> handle \<Rightarrow> event list \<Rightarrow> ((exn + str) \<times> handle \<times> event list) option" where
  "retry_exception is_exception max_tries giveup target tries file_handle log =
     (let tries1 = tries + 1 in
      case target file_handle log of
        (Inr ret, fh, log1) \<Rightarrow> Some (Inr ret, fh, log1)
      | (Inl e, fh, log1) \<Rightarrow>
          if \<not> is_exception e then Some (Inl e, fh, log1)
          else if giveup e \<or> tries1 = max_tries then Some (Inl e, fh, log1)
          else retry_exception is_exception max_tries giveup target tries1 fh
                 (log1 @ [Sleep (2 ^ (tries1 - 1))]))"

declare retry_exception.simps [code]

definition read_file_remotely_with_retries ::
  "env \<Rightarrow> handle \<Rightarrow> APIProcessingConfigModel \<Rightarrow> FileType \<Rightarrow> event list \<Rightarrow>
     ((exn + str) \<times> handle \<times> event list) option" where
  "read_file_remotely_with_retries env file_handle fmt filetype log =
     retry_exception is_RequestException 5 user_error
       (\<lambda>h l. read_file_remotely env h fmt filetype l) 0 file_handle log"

text \<open>
  \<^verbatim>\<open>UnstructuredParser._read_file_locally\<close>. For a PDF the handle is rewound, read into a
  \<^verbatim>\<open>BytesIO\<close> and rewound again; the other two partition functions get the handle itself.
  A file type that is none of the three leaves \<^verbatim>\<open>elements\<close> unbound.
\<close>

definition read_file_locally ::
  "env \<Rightarrow> handle \<Rightarrow> FileType \<Rightarrow> event list \<Rightarrow> (exn + str) \<times> handle \<times> event list" where
  "read_file_locally env file_handle filetype log =
     (case import_unstructured env of
        Some e \<Rightarrow> (Inl e, file_handle, log)
      | None \<Rightarrow>
          (case (unstructured_partition_pdf env, unstructured_partition_docx env,
                 unstructured_partition_pptx env) of
             (Some partition_pdf, Some partition_docx, Some partition_pptx) \<Rightarrow>
               if filetype = PDF then
                 (let (b, fh1) = read_all (file_handle\<lparr>h_pos := 0\<rparr>);
                      fh2 = fh1\<lparr>h_pos := 0\<rparr>;
                      (elements, p) = partition_pdf (BytesIO b)
                  in case elements of
                       Inl e \<Rightarrow> (Inl e, fh2, log @ [Partition PDF])
                     | Inr els \<Rightarrow> (render_markdown (env_repr env) els, fh2, log @ [Partition PDF]))
               else if filetype = DOCX then
                 (let (elements, p) = partition_docx file_handle;
                      fh = file_handle\<lparr>h_pos := p\<rparr>
                  in case elements of
                       Inl e \<Rightarrow> (Inl e, fh, log @ [Partition DOCX])
                     | Inr els \<Rightarrow> (render_markdown (env_repr env) els, fh, log @ [Partition DOCX]))
               else if filetype = PPTX then
                 (let (elements, p) = partition_pptx file_handle;
                      fh = file_handle\<lparr>h_pos := p\<rparr>
                  in case elements of
                       Inl e \<Rightarrow> (Inl e, fh, log @ [Partition PPTX])
                     | Inr els \<Rightarrow> (render_markdown (env_repr env) els, fh, log @ [Partition PPTX]))
               else (Inl (UnboundLocalError ''elements''), file_handle, log)
           | _ \<Rightarrow> (Inl (Exception ''unstructured library is not available''), file_handle, log)))"

text \<open>
  \<^verbatim>\<open>UnstructuredParser._read_file\<close>: the Markdown text of the file, \<open>None\<close> for a file
  that is skipped. The test for Markdown comes first, then the test for a supported type,
  and only then is the processing mode read.
\<close>

definition read_file ::
  "env \<Rightarrow> handle \<Rightarrow> RemoteFile \<Rightarrow> UnstructuredFormat \<Rightarrow> event list \<Rightarrow>
     ((exn + str option) \<times> handle \<times> event list) option" where
  "read_file env file_handle remote_file fmt log =
     (let (filetype, fh, log1) = get_filetype env file_handle remote_file log in
      if filetype = Some MD then
        (let (file_content, fh1) = read_all fh in
         case optional_decode (Bytes file_content) of
           Inl e \<Rightarrow> Some (Inl e, fh1, log1)
         | Inr decoded_content \<Rightarrow> Some (Inr (Some decoded_content), fh1, log1))
      else
        (case filetype of
           None \<Rightarrow>
             (case handle_unprocessable_file remote_file (skip_unprocessable_file_types fmt) log1 of
                (Some e, log2) \<Rightarrow> Some (Inl e, fh, log2)
              | (None, log2) \<Rightarrow> Some (Inr None, fh, log2))
         | Some ft \<Rightarrow>
             if ft \<notin> set supported_file_types then
               (case handle_unprocessable_file remote_file (skip_unprocessable_file_types fmt) log1 of
                  (Some e, log2) \<Rightarrow> Some (Inl e, fh, log2)
                | (None, log2) \<Rightarrow> Some (Inr None, fh, log2))
             else
               (case processing fmt of
                  LocalProcessingConfigModel \<Rightarrow>
                    (case read_file_locally env fh ft log1 of
                       (Inl e, fh1, log2) \<Rightarrow> Some (Inl e, fh1, log2)
                     | (Inr md, fh1, log2) \<Rightarrow> Some (Inr (Some md), fh1, log2))
                | APIProcessing p \<Rightarrow>
                    (case read_file_remotely_with_retries env fh p ft log1 of
                       None \<Rightarrow> None
                     | Some (Inl e, fh1, log2) \<Rightarrow> Some (Inl e, fh1, log2)
                     | Some (Inr md, fh1, log2) \<Rightarrow> Some (Inr (Some md), fh1, log2)))))"

text \<open>
  \<^verbatim>\<open>UnstructuredParser.parse_records\<close>: the records the generator yields, run to its end.
  A record is a dictionary with the keys \<^verbatim>\<open>content\<close> and \<^verbatim>\<open>document_key\<close>.
\<close>

definition parse_records ::
  "env \<Rightarrow> FileBasedStreamConfig \<Rightarrow> RemoteFile \<Rightarrow> event list \<Rightarrow>
     ((exn + (str \<times> str) list list) \<times> event list) option" where
  "parse_records env config file log =
     (case extract_format config of
        Inl e \<Rightarrow> Some (Inl e, log)
      | Inr fmt \<Rightarrow>
          (case open_file env file of
             Inl e \<Rightarrow> Some (Inl e, log)
           | Inr file_handle \<Rightarrow>
               (case read_file env file_handle file fmt log of
                  None \<Rightarrow> None
                | Some (Inl e, fh, log1) \<Rightarrow> Some (Inl e, log1)
                | Some (Inr markdown, fh, log1) \<Rightarrow>
                    (case markdown of
                       None \<Rightarrow> Some (Inr [], log1)
                     | Some md \<Rightarrow>
                         Some (Inr [[(''content'', md), (''document_key'', uri file)]], log1)))))"

section \<open>Checking a configuration\<close>

text \<open>
  \<^verbatim>\<open>str.casefold\<close> and \<^verbatim>\<open>str.startswith\<close>. The folding maps the ASCII capitals to small
  letters; in the source its result is only compared with \<^verbatim>\<open>"cloud"\<close>, and no character
  outside ASCII folds to one of these letters.
\<close>

definition casefold :: "str \<Rightarrow> str" where
  "casefold s = map (\<lambda>c. if in_range 65 90 c then char_of (of_char c + (32 :: nat)) else c) s"

definition startswith :: "str \<Rightarrow> str \<Rightarrow> bool" where
  "startswith s p = (take (length p) s = p)"

definition CLOUD_DEPLOYMENT_MODE :: str where
  "CLOUD_DEPLOYMENT_MODE = ''cloud''"

text \<open>
  \<^verbatim>\<open>UnstructuredParser.check_config\<close>. \<^verbatim>\<open>_extract_format\<close> is called before the
  \<^verbatim>\<open>try\<close>; the bare \<^verbatim>\<open>except\<close> catches whatever the test extraction raises.
\<close>

definition check_config ::
  "env \<Rightarrow> FileBasedStreamConfig \<Rightarrow> event list \<Rightarrow> (exn + bool \<times> str option) \<times> event list" where
  "check_config env config log =
     (case extract_format config of
        Inl e \<Rightarrow> (Inl e, log)
      | Inr format_config \<Rightarrow>
          (case processing format_config of
             LocalProcessingConfigModel \<Rightarrow> (Inr (True, None), log)
           | APIProcessing p \<Rightarrow>
               (let deployment_mode = (case DEPLOYMENT_MODE env of None \<Rightarrow> [] | Some v \<Rightarrow> v) in
                if casefold deployment_mode = CLOUD_DEPLOYMENT_MODE \<and>
                   \<not> startswith (api_url p) ''https://''
                then (Inr (False, Some ''Base URL must start with https://''), log)
                else
                  (case read_file_remotely env (BytesIO ''# Airbyte source connection test'') p MD log of
                     (Inl e, fh, log1) \<Rightarrow> (Inr (False, Some (format_exc env e)), log1)
                   | (Inr md, fh, log1) \<Rightarrow> (Inr (True, None), log1)))))"

section \<open>The build script of the base images\<close>

text \<open>
  \<^verbatim>\<open>base_images/build.py\<close>. A platform and a base image class are their names. What the
  script calls and does not define is a parameter: the two lists it iterates over, the
  \<^verbatim>\<open>DEBUG\<close> flag, the \<^verbatim>\<open>GIT_HOOK\<close> variable, and for a platform and an image the
  exception, if any, that building the image object and generating its Dockerfile raises
  (\<open>generate_dockerfile_raises\<close>) and that its sanity checks raise
  (\<open>run_sanity_checks_for_version\<close>). Writing the changelog file is an event of the run.
\<close>

datatype build_exn =
    SanityCheckError str
  | KeyboardInterrupt
  | OtherError str

datatype build_event =
    DaggerLogsMsg
  | GenerateDockerfile str str
  | SanityChecksPassedMsg str str
  | SanityChecksFailureMsg str str str
  | SanityChecksFailedMsg
  | WriteChangelog
  | WroteChangelogMsg
  | CommittedMsg
  | CanCommitMsg
  | AbortedMsg

record build_env =
  DEBUG :: bool
  GIT_HOOK :: "str option"
  SUPPORTED_PLATFORMS :: "str list"
  ALL_BASE_IMAGES :: "str list"
  generate_dockerfile_raises :: "str \<Rightarrow> str \<Rightarrow> build_exn option"
  run_sanity_checks_for_version :: "str \<Rightarrow> str \<Rightarrow> build_exn option"

text \<open>\<^verbatim>\<open>run_sanity_checks\<close>: only a \<^verbatim>\<open>SanityCheckError\<close> is caught.\<close>

definition run_sanity_checks ::
  "build_env \<Rightarrow> str \<Rightarrow> str \<Rightarrow> build_event list \<Rightarrow> (build_exn + bool) \<times> build_event list" where
  "run_sanity_checks env platform img log =
     (case run_sanity_checks_for_version env platform img of
        None \<Rightarrow> (Inr True, log @ [SanityChecksPassedMsg img platform])
      | Some (SanityCheckError sanity_check_error) \<Rightarrow>
          (Inr False, log @ [SanityChecksFailureMsg img platform sanity_check_error])
      | Some e \<Rightarrow> (Inl e, log))"

text \<open>
  \<^verbatim>\<open>a_build\<close>: the loop over \<^verbatim>\<open>product(consts.SUPPORTED_PLATFORMS, ALL_BASE_IMAGES)\<close>
  appends every result to \<open>sanity_check_successes\<close>; the function returns \<^verbatim>\<open>all\<close> of them.
\<close>

fun a_build_loop ::
  "build_env \<Rightarrow> (str \<times> str) list \<Rightarrow> bool list \<Rightarrow> build_event list \<Rightarrow>
     (build_exn + bool list) \<times> build_event list" where
  "a_build_loop env [] sanity_check_successes log = (Inr sanity_check_successes, log)"
| "a_build_loop env ((platform, img) # rest) sanity_check_successes log =
     (case generate_dockerfile_raises env platform img of
        Some e \<Rightarrow> (Inl e, log)
      | None \<Rightarrow>
          (case run_sanity_checks env platform img (log @ [GenerateDockerfile img platform]) of
             (Inl e, log1) \<Rightarrow> (Inl e, log1)
           | (Inr success, log1) \<Rightarrow>
               a_build_loop env rest (sanity_check_successes @ [success]) log1))"

definition a_build :: "build_env \<Rightarrow> build_event list \<Rightarrow> (build_exn + bool) \<times> build_event list" where
  "a_build env log =
     (let log0 = (if DEBUG env then log else log @ [DaggerLogsMsg]) in
      case a_build_loop env (List.product (SUPPORTED_PLATFORMS env) (ALL_BASE_IMAGES env)) [] log0 of
        (Inl e, log1) \<Rightarrow> (Inl e, log1)
      | (Inr sanity_check_successes, log1) \<Rightarrow> (Inr (list_all (\<lambda>b. b) sanity_check_successes), log1))"

text \<open>
  \<^verbatim>\<open>main\<close>: how the process ends (it returns, it exits with a status through
  \<^verbatim>\<open>sys.exit\<close>, or an exception escapes) and the events of the run. Only
  \<^verbatim>\<open>KeyboardInterrupt\<close> is caught.
\<close>

datatype ending = Returned | Exited nat | Raised build_exn

definition main :: "build_env \<Rightarrow> build_event list \<Rightarrow> ending \<times> build_event list" where
  "main env log =
     (case a_build env log of
        (Inl KeyboardInterrupt, log1) \<Rightarrow> (Exited 1, log1 @ [AbortedMsg])
      | (Inl e, log1) \<Rightarrow> (Raised e, log1)
      | (Inr success, log1) \<Rightarrow>
          (let log2 =
             (if \<not> success then log1 @ [SanityChecksFailedMsg]
              else log1 @ [WriteChangelog, WroteChangelogMsg] @
                (if GIT_HOOK env \<noteq> None \<and> GIT_HOOK env \<noteq> Some [] then [CommittedMsg]
                 else [CanCommitMsg]))
           in if \<not> success then (Exited 1, log2) else (Returned, log2)))"

section \<open>Example surroundings\<close>

text \<open>
  Concrete surroundings for the instances below: two small tables, a detector that knows
  three file names and the PDF signature, a remote API that answers the first two requests
  with status 503 and every later one with a title and a list item, and a build of two
  platforms and two images in which one sanity check fails.
\<close>

definition example_env :: env where
  "example_env =
     \<lparr>STR_TO_FILETYPE = [''application/pdf'' \<mapsto> PDF, ''text/markdown'' \<mapsto> MD,
                          ''text/csv'' \<mapsto> OtherFileType ''CSV''],
      FILETYPE_TO_MIMETYPE = [PDF \<mapsto> ''application/pdf'', MD \<mapsto> ''text/markdown''],
      detect_filetype_filename =
        (\<lambda>n. if n = ''notes.md'' then Some MD else if n = ''report.docx'' then Some DOCX
              else if n = ''table.csv'' then Some (OtherFileType ''CSV'') else Some UNK),
      detect_filetype_file =
        (\<lambda>h. (if take 4 (h_content h) = ''%PDF'' then Some PDF else Some UNK,
               min 4 (length (h_content h)))),
      import_unstructured = None,
      unstructured_partition_pdf = None,
      unstructured_partition_docx = None,
      unstructured_partition_pptx = None,
      requests_post =
        (\<lambda>n req. (if n < 2 then Inr \<lparr>status_code = 503, json_body = None\<rparr>
                    else Inr \<lparr>status_code = 200, json_body = Some
                      [PDict [(''type'', PStr ''Title''), (''text'', PStr ''Menu'')],
                       PDict [(''type'', PStr ''ListItem''), (''text'', PStr ''Buy milk'')]]\<rparr>,
                    0)),
      open_file = (\<lambda>f. if uri f = ''table.csv'' then Inr (BytesIO ''a,b'')
                        else if uri f = ''notes.md'' then Inr (BytesIO ''# Hi'')
                        else Inl (Exception ''no such file'')),
      DEPLOYMENT_MODE = Some ''Cloud'',
      format_exc = (\<lambda>e. ''Traceback''),
      env_repr = (\<lambda>v. [])\<rparr>"

definition example_api :: APIProcessingConfigModel where
  "example_api = \<lparr>api_key = ''k'', api_url = ''https://api.example'', parameters = Some []\<rparr>"

definition example_build :: build_env where
  "example_build =
     \<lparr>DEBUG = False, GIT_HOOK = None,
      SUPPORTED_PLATFORMS = [''linux/amd64'', ''linux/arm64''],
      ALL_BASE_IMAGES = [''v1'', ''v2''],
      generate_dockerfile_raises = (\<lambda>p i. None),
      run_sanity_checks_for_version =
        (\<lambda>p i. if p = ''linux/arm64'' \<and> i = ''v2'' then Some (SanityCheckError ''no python'')
                else None)\<rparr>"

section \<open>Verified properties\<close>

subsection \<open>Helper lemmas for the renderer\<close>

lemma split_type: "split_on CHR ''/'' ''type'' = [''type'']"
  by simp

lemma split_text: "split_on CHR ''/'' ''text'' = [''text'']"
  by simp

lemma split_depth:
  "split_on CHR ''/'' ''metadata/category_depth'' = [''metadata'', ''category_depth'']"
  by simp

lemma dpath_get_found:
  "lookup_path el (split_on CHR ''/'' g) = Some v \<Longrightarrow> dpath_get el g d = Inr v"
  by (simp add: dpath_get_def)

lemma dpath_get_missing:
  "lookup_path el (split_on CHR ''/'' g) = None \<Longrightarrow>
     dpath_get el g d = (case d of Some x \<Rightarrow> Inr x | None \<Rightarrow> Inl (KeyError g))"
  by (simp add: dpath_get_def)

lemma concat_replicate_one_char: "concat (replicate n [c]) = replicate n c"
  by (induction n) auto

lemma collect_Inr_iff:
  "collect f xs = Inr ys \<longleftrightarrow> map f xs = map Inr ys"
proof (induction xs arbitrary: ys)
  case Nil
  show ?case by auto
next
  case (Cons x xs)
  show ?case
  proof (cases "f x")
    case (Inl e)
    then show ?thesis by (cases ys) auto
  next
    case (Inr y)
    show ?thesis
    proof (cases "collect f xs")
      case (Inl e)
      have "\<And>zs. map f xs \<noteq> map Inr zs"
        using Cons.IH Inl by (metis sum.distinct(1))
      with Inl Inr show ?thesis by (cases ys) auto
    next
      case r: (Inr zs)
      then have "map f xs = map Inr zs" using Cons.IH by simp
      with r Inr show ?thesis by (cases ys) (auto simp: inj_map_eq_map)
    qed
  qed
qed

lemma join_from_False:
  "join_from sep acc False xs = acc @ concat (map (\<lambda>x. sep @ x) xs)"
  by (induction xs arbitrary: acc) auto

lemma blank_line_joined_Cons:
  "blank_line_joined (s # ss) = s @ concat (map (\<lambda>x. ''\<newline>\<newline>'' @ x) ss)"
  by (induction ss arbitrary: s) auto

lemma py_join_blank_line:
  "py_join ''\<newline>\<newline>'' ss = blank_line_joined ss"
proof (cases ss)
  case Nil
  then show ?thesis by (simp add: py_join_def)
next
  case (Cons s ts)
  then show ?thesis
    by (simp only: py_join_def join_from.simps if_True append_Nil join_from_False
        blank_line_joined_Cons)
qed

subsection \<open>C5: the renderer joins the renderings with one blank line\<close>

text \<open>
  C5. \<^verbatim>\<open>_render_markdown\<close> returns a string exactly when every element of the sequence
  renders, and the string is then the per-element renderings in input order with exactly
  one blank line (the separator of two line feeds) between consecutive ones and no
  separator before the first or after the last.
\<close>

theorem render_markdown_joins:
  "render_markdown py_repr els = Inr out \<longleftrightarrow>
     (\<exists>ss. map (convert_to_markdown py_repr) els = map Inr ss \<and> out = blank_line_joined ss)"
  by (auto simp: render_markdown_def py_join_blank_line collect_Inr_iff split: sum.splits)
    (metis collect_Inr_iff sum.distinct(1))+

text \<open>Three elements, a Title, a ListItem and a paragraph.\<close>

theorem render_markdown_joins_witness:
  "render_markdown (\<lambda>v. [])
     [PDict [(''type'', PStr ''Title''), (''text'', PStr ''Menu'')],
      PDict [(''type'', PStr ''ListItem''), (''text'', PStr ''Buy milk'')],
      PDict [(''type'', PStr ''NarrativeText''), (''text'', PStr ''Done.'')]]
   = Inr ''# Menu\<newline>\<newline>- Buy milk\<newline>\<newline>Done.''"
proof -
  let ?els = "[PDict [(''type'', PStr ''Title''), (''text'', PStr ''Menu'')],
      PDict [(''type'', PStr ''ListItem''), (''text'', PStr ''Buy milk'')],
      PDict [(''type'', PStr ''NarrativeText''), (''text'', PStr ''Done.'')]]"
  have "map (convert_to_markdown (\<lambda>v. [])) ?els = map Inr [''# Menu'', ''- Buy milk'', ''Done.'']"
    by (simp add: convert_to_markdown_def dpath_get_def)
  then have "render_markdown (\<lambda>v. []) ?els = Inr (blank_line_joined [''# Menu'', ''- Buy milk'', ''Done.''])"
    using render_markdown_joins [of "\<lambda>v. []" ?els "blank_line_joined [''# Menu'', ''- Buy milk'', ''Done.'']"]
    by blast
  then show ?thesis by simp
qed

subsection \<open>C6: the heading of a Title element\<close>

text \<open>
  C6. For an element of type Title with text \<open>t\<close>: when \<^verbatim>\<open>metadata/category_depth\<close> is a
  positive integer \<open>d\<close> the rendering is \<open>d\<close> characters \<^verbatim>\<open>#\<close>, a space and \<open>t\<close>; when the
  depth is absent, zero or any other falsy value the rendering is \<^verbatim>\<open># t\<close>.
\<close>

theorem title_heading:
  assumes "lookup_path el [''type''] = Some (PStr ''Title'')"
    and "lookup_path el [''text''] = Some (PStr t)"
  shows "(\<forall>d. lookup_path el [''metadata'', ''category_depth''] = Some (PInt d) \<and> 0 < d \<longrightarrow>
            convert_to_markdown py_repr el = Inr (replicate (nat d) CHR ''#'' @ '' '' @ t)) \<and>
         ((lookup_path el [''metadata'', ''category_depth''] = None \<or>
           (\<exists>v. lookup_path el [''metadata'', ''category_depth''] = Some v \<and> \<not> truthy v)) \<longrightarrow>
            convert_to_markdown py_repr el = Inr (''# '' @ t))"
proof -
  have ty: "dpath_get el ''type'' None = Inr (PStr ''Title'')"
    using assms(1) by (simp add: dpath_get_found split_type del: split_on.simps)
  have tx: "dpath_get el ''text'' None = Inr (PStr t)"
    using assms(2) by (simp add: dpath_get_found split_text del: split_on.simps)
  have a: "convert_to_markdown py_repr el = Inr (replicate (nat d) CHR ''#'' @ '' '' @ t)"
    if "lookup_path el [''metadata'', ''category_depth''] = Some (PInt d)" "0 < d" for d
  proof -
    have "dpath_get el ''metadata/category_depth'' (Some (PInt 1)) = Inr (PInt d)"
      using that(1) by (simp add: dpath_get_found split_depth del: split_on.simps)
    then show ?thesis
      using that(2) ty tx by (simp add: convert_to_markdown_def concat_replicate_one_char)
  qed
  have b: "convert_to_markdown py_repr el = Inr (''# '' @ t)"
    if "lookup_path el [''metadata'', ''category_depth''] = None"
  proof -
    have "dpath_get el ''metadata/category_depth'' (Some (PInt 1)) = Inr (PInt 1)"
      using that by (simp add: dpath_get_missing split_depth del: split_on.simps)
    then show ?thesis
      using ty tx by (simp add: convert_to_markdown_def)
  qed
  have c: "convert_to_markdown py_repr el = Inr (''# '' @ t)"
    if "lookup_path el [''metadata'', ''category_depth''] = Some v" "\<not> truthy v" for v
  proof -
    have "dpath_get el ''metadata/category_depth'' (Some (PInt 1)) = Inr v"
      using that(1) by (simp add: dpath_get_found split_depth del: split_on.simps)
    then show ?thesis
      using that(2) ty tx by (simp add: convert_to_markdown_def)
  qed
  show ?thesis using a b c by blast
qed

text \<open>Depth 3, depth 0 and no depth at all, on a Title with text \<^verbatim>\<open>Intro\<close>.\<close>

theorem title_heading_witness:
  "convert_to_markdown (\<lambda>v. []) (PDict [(''type'', PStr ''Title''), (''text'', PStr ''Intro''),
       (''metadata'', PDict [(''category_depth'', PInt 3)])]) = Inr ''### Intro'' \<and>
   convert_to_markdown (\<lambda>v. []) (PDict [(''type'', PStr ''Title''), (''text'', PStr ''Intro''),
       (''metadata'', PDict [(''category_depth'', PInt 0)])]) = Inr ''# Intro'' \<and>
   convert_to_markdown (\<lambda>v. []) (PDict [(''type'', PStr ''Title''), (''text'', PStr ''Intro'')])
     = Inr ''# Intro''"
proof -
  let ?e3 = "PDict [(''type'', PStr ''Title''), (''text'', PStr ''Intro''),
       (''metadata'', PDict [(''category_depth'', PInt 3)])]"
  let ?e0 = "PDict [(''type'', PStr ''Title''), (''text'', PStr ''Intro''),
       (''metadata'', PDict [(''category_depth'', PInt 0)])]"
  let ?en = "PDict [(''type'', PStr ''Title''), (''text'', PStr ''Intro'')]"
  have "convert_to_markdown (\<lambda>v. []) ?e3 = Inr (replicate (nat 3) CHR ''#'' @ '' '' @ ''Intro'')"
    using title_heading [of ?e3 "''Intro''" "\<lambda>v. []"] by simp
  moreover have "convert_to_markdown (\<lambda>v. []) ?e0 = Inr (''# '' @ ''Intro'')"
    using title_heading [of ?e0 "''Intro''" "\<lambda>v. []"] by simp
  moreover have "convert_to_markdown (\<lambda>v. []) ?en = Inr (''# '' @ ''Intro'')"
    using title_heading [of ?en "''Intro''" "\<lambda>v. []"] by simp
  ultimately show ?thesis by (simp add: numeral_3_eq_3)
qed

subsection \<open>C10: a missing text field\<close>

text \<open>
  C10. The per-element rendering is not total. For an element with a type but no
  \<^verbatim>\<open>text\<close> key: type ListItem or Formula raises \<^verbatim>\<open>KeyError('text')\<close>; type Title raises
  (the same \<^verbatim>\<open>KeyError\<close> whenever the heading itself can be built, that is unless the
  depth is a truthy value that is not an int); every other type renders as the empty string.
\<close>

theorem missing_text_raises:
  assumes "lookup_path el [''text''] = None"
    and "lookup_path el [''type''] = Some ty"
  shows "(ty = PStr ''ListItem'' \<or> ty = PStr ''Formula'' \<longrightarrow>
            convert_to_markdown py_repr el = Inl (KeyError ''text'')) \<and>
         (ty = PStr ''Title'' \<longrightarrow>
            (\<exists>e. convert_to_markdown py_repr el = Inl e) \<and>
            ((\<forall>v. lookup_path el [''metadata'', ''category_depth''] = Some v \<and> truthy v \<longrightarrow>
                 (\<exists>n. v = PInt n) \<or> (\<exists>b. v = PBool b)) \<longrightarrow>
             convert_to_markdown py_repr el = Inl (KeyError ''text''))) \<and>
         (ty \<noteq> PStr ''Title'' \<and> ty \<noteq> PStr ''ListItem'' \<and> ty \<noteq> PStr ''Formula'' \<longrightarrow>
            convert_to_markdown py_repr el = Inr [])"
proof -
  have ty: "dpath_get el ''type'' None = Inr ty"
    using assms(2) by (simp add: dpath_get_found split_type del: split_on.simps)
  have tx: "dpath_get el ''text'' None = Inl (KeyError ''text'')"
    using assms(1) by (simp add: dpath_get_missing split_text del: split_on.simps)
  have txd: "dpath_get el ''text'' (Some (PStr [])) = Inr (PStr [])"
    using assms(1) by (simp add: dpath_get_missing split_text del: split_on.simps)
  have li: "convert_to_markdown py_repr el = Inl (KeyError ''text'')"
    if "ty = PStr ''ListItem'' \<or> ty = PStr ''Formula''"
    using that ty tx by (auto simp: convert_to_markdown_def)
  have other: "convert_to_markdown py_repr el = Inr []"
    if "ty \<noteq> PStr ''Title''" "ty \<noteq> PStr ''ListItem''" "ty \<noteq> PStr ''Formula''"
    using that ty txd by (simp add: convert_to_markdown_def)
  obtain d where d: "dpath_get el ''metadata/category_depth'' (Some (PInt 1)) = Inr d"
    and dd: "lookup_path el [''metadata'', ''category_depth''] = None \<and> d = PInt 1
          \<or> lookup_path el [''metadata'', ''category_depth''] = Some d"
    by (cases "lookup_path el [''metadata'', ''category_depth'']")
       (auto simp: dpath_get_def split_depth simp del: split_on.simps)
  have t1: "\<exists>e. convert_to_markdown py_repr el = Inl e" if "ty = PStr ''Title''"
    using that ty tx d by (auto simp: convert_to_markdown_def split: sum.splits)
  have t2: "convert_to_markdown py_repr el = Inl (KeyError ''text'')"
    if "ty = PStr ''Title''"
      "\<forall>v. lookup_path el [''metadata'', ''category_depth''] = Some v \<and> truthy v \<longrightarrow>
                 (\<exists>n. v = PInt n) \<or> (\<exists>b. v = PBool b)"
  proof -
    have "\<exists>h. py_mul_str ''#'' (if truthy d then d else PInt 1) = Inr h"
      using dd that(2) by (cases "truthy d") auto
    then show ?thesis
      using that(1) ty tx d by (auto simp: convert_to_markdown_def)
  qed
  show ?thesis using li other t1 t2 by blast
qed

text \<open>One element of each kind, none with a \<^verbatim>\<open>text\<close> key.\<close>

theorem missing_text_raises_witness:
  "convert_to_markdown (\<lambda>v. []) (PDict [(''type'', PStr ''ListItem'')]) = Inl (KeyError ''text'') \<and>
   convert_to_markdown (\<lambda>v. []) (PDict [(''type'', PStr ''Formula'')]) = Inl (KeyError ''text'') \<and>
   convert_to_markdown (\<lambda>v. []) (PDict [(''type'', PStr ''Title'')]) = Inl (KeyError ''text'') \<and>
   convert_to_markdown (\<lambda>v. []) (PDict [(''type'', PStr ''Image'')]) = Inr []"
proof -
  have "convert_to_markdown (\<lambda>v. []) (PDict [(''type'', PStr ''ListItem'')]) = Inl (KeyError ''text'')"
    using missing_text_raises [of "PDict [(''type'', PStr ''ListItem'')]" "PStr ''ListItem''" "\<lambda>v. []"]
    by simp
  moreover have "convert_to_markdown (\<lambda>v. []) (PDict [(''type'', PStr ''Formula'')]) = Inl (KeyError ''text'')"
    using missing_text_raises [of "PDict [(''type'', PStr ''Formula'')]" "PStr ''Formula''" "\<lambda>v. []"]
    by simp
  moreover have "convert_to_markdown (\<lambda>v. []) (PDict [(''type'', PStr ''Title'')]) = Inl (KeyError ''text'')"
    using missing_text_raises [of "PDict [(''type'', PStr ''Title'')]" "PStr ''Title''" "\<lambda>v. []"]
    by simp
  moreover have "convert_to_markdown (\<lambda>v. []) (PDict [(''type'', PStr ''Image'')]) = Inr []"
    using missing_text_raises [of "PDict [(''type'', PStr ''Image'')]" "PStr ''Image''" "\<lambda>v. []"]
    by simp
  ultimately show ?thesis by blast
qed

subsection \<open>C8: the form fields\<close>

lemma map_of_params_step:
  "map_of (params_step d item) k =
     (if k = param_name item then
        (case map_of d k of None \<Rightarrow> Some (Scalar (param_value item))
          | Some (Scalar x) \<Rightarrow> Some (Multi [x, param_value item])
          | Some (Multi vs) \<Rightarrow> Some (Multi (vs @ [param_value item])))
      else map_of d k)"
  by (auto simp: params_step_def Let_def update_conv' split: option.splits form_value.splits)

lemma distinct_params_step:
  "distinct (map fst d) \<Longrightarrow> distinct (map fst (params_step d item))"
  by (auto simp: params_step_def Let_def distinct_update split: option.splits form_value.splits)

lemma distinct_params_loop:
  "distinct (map fst d) \<Longrightarrow> distinct (map fst (foldl params_step d ps))"
  by (induction ps arbitrary: d) (auto simp: distinct_params_step)

text \<open>
  C8. \<^verbatim>\<open>_params_to_dict\<close> gives the empty dictionary for \<^verbatim>\<open>None\<close>; for a list of
  parameters the dictionary has every name once, a name that occurs once is mapped to its
  value, a name that occurs more than once to the list of its values in input order, and a
  name that does not occur is no key.
\<close>

theorem params_to_dict_coalesces:
  "params_to_dict None = [] \<and>
   distinct (map fst (params_to_dict (Some ps))) \<and>
   map_of (params_to_dict (Some ps)) k =
     (case map param_value (filter (\<lambda>p. param_name p = k) ps) of
        [] \<Rightarrow> None
      | [v] \<Rightarrow> Some (Scalar v)
      | v # w # vs \<Rightarrow> Some (Multi (v # w # vs)))"
proof -
  have "map_of (foldl params_step [] ps) k =
     (case map param_value (filter (\<lambda>p. param_name p = k) ps) of
        [] \<Rightarrow> None
      | [v] \<Rightarrow> Some (Scalar v)
      | v # w # vs \<Rightarrow> Some (Multi (v # w # vs)))"
  proof (induction ps rule: rev_induct)
    case Nil
    show ?case by simp
  next
    case (snoc p ps)
    show ?case
    proof (cases "param_name p = k")
      case False
      then show ?thesis using snoc by (simp add: map_of_params_step)
    next
      case True
      show ?thesis
      proof (cases "map param_value (filter (\<lambda>p. param_name p = k) ps)")
        case Nil
        then show ?thesis using snoc True by (simp add: map_of_params_step)
      next
        case (Cons v rest)
        then show ?thesis using snoc True
          by (cases rest) (simp_all add: map_of_params_step)
      qed
    qed
  qed
  moreover have "distinct (map fst (foldl params_step [] ps))"
    by (rule distinct_params_loop) simp
  ultimately show ?thesis by (simp add: params_to_dict_def)
qed

subsection \<open>C1: the MIME type comes first\<close>

text \<open>
  C1. When the file reference carries a MIME type that is a key of \<open>STR_TO_FILETYPE\<close>,
  \<^verbatim>\<open>_get_filetype\<close> returns the file type of the table, whatever the name and the content
  of the file are, and calls no detector (the source tests the truth value of the hint, so
  the hint is not the empty string). Only when the hint is absent, empty or no key of the
  table is the detector asked for the file name, and only when its answer is \<^verbatim>\<open>None\<close> or
  \<^verbatim>\<open>UNK\<close> is it asked for the content.
\<close>

theorem get_filetype_mime_first:
  "(mime_type remote_file = Some m \<and> m \<noteq> [] \<and> STR_TO_FILETYPE env m = Some k \<longrightarrow>
      get_filetype env file remote_file log = (Some k, file, log)) \<and>
   ((mime_type remote_file = None \<or> mime_type remote_file = Some [] \<or>
     (\<exists>m. mime_type remote_file = Some m \<and> STR_TO_FILETYPE env m = None)) \<longrightarrow>
      snd (snd (get_filetype env file remote_file log)) =
        log @ DetectFilename (uri remote_file) #
          (if detect_filetype_filename env (uri remote_file) = None \<or>
              detect_filetype_filename env (uri remote_file) = Some UNK
           then [DetectContent] else []) \<and>
      fst (get_filetype env file remote_file log) =
        (if detect_filetype_filename env (uri remote_file) = None \<or>
            detect_filetype_filename env (uri remote_file) = Some UNK
         then fst (detect_filetype_file env
                (if h_name file \<noteq> None then file\<lparr>h_name := Some None\<rparr> else file))
         else detect_filetype_filename env (uri remote_file)))"
  by (auto simp: get_filetype_def Let_def split: option.splits prod.splits)

text \<open>
  A file named as a Word document and starting as a PDF, with the MIME type of Markdown,
  with a MIME type the table does not have and, under a name the detector does not know,
  with an empty MIME type.
\<close>

theorem get_filetype_mime_first_witness:
  "get_filetype example_env (BytesIO ''%PDF-1'')
      \<lparr>uri = ''report.docx'', mime_type = Some ''text/markdown''\<rparr> []
     = (Some MD, BytesIO ''%PDF-1'', []) \<and>
   fst (get_filetype example_env (BytesIO ''%PDF-1'')
      \<lparr>uri = ''report.docx'', mime_type = Some ''text/x-unknown''\<rparr> []) = Some DOCX \<and>
   snd (snd (get_filetype example_env (BytesIO ''%PDF-1'')
      \<lparr>uri = ''report.docx'', mime_type = Some ''text/x-unknown''\<rparr> []))
     = [DetectFilename ''report.docx''] \<and>
   fst (get_filetype example_env (BytesIO ''%PDF-1'')
      \<lparr>uri = ''blob'', mime_type = Some []\<rparr> []) = Some PDF \<and>
   snd (snd (get_filetype example_env (BytesIO ''%PDF-1'')
      \<lparr>uri = ''blob'', mime_type = Some []\<rparr> []))
     = [DetectFilename ''blob'', DetectContent]"
proof -
  have a: "get_filetype example_env (BytesIO ''%PDF-1'')
      \<lparr>uri = ''report.docx'', mime_type = Some ''text/markdown''\<rparr> []
     = (Some MD, BytesIO ''%PDF-1'', [])"
    using get_filetype_mime_first
      [of "\<lparr>uri = ''report.docx'', mime_type = Some ''text/markdown''\<rparr>" "''text/markdown''"
          example_env MD "BytesIO ''%PDF-1''" "[]"]
    by (simp add: example_env_def)
  have b: "fst (get_filetype example_env (BytesIO ''%PDF-1'')
      \<lparr>uri = ''report.docx'', mime_type = Some ''text/x-unknown''\<rparr> []) = Some DOCX \<and>
    snd (snd (get_filetype example_env (BytesIO ''%PDF-1'')
      \<lparr>uri = ''report.docx'', mime_type = Some ''text/x-unknown''\<rparr> []))
     = [DetectFilename ''report.docx'']"
    using get_filetype_mime_first
      [of "\<lparr>uri = ''report.docx'', mime_type = Some ''text/x-unknown''\<rparr>" "''text/x-unknown''"
          example_env MD "BytesIO ''%PDF-1''" "[]"]
    by (simp add: example_env_def)
  have c: "fst (get_filetype example_env (BytesIO ''%PDF-1'')
      \<lparr>uri = ''blob'', mime_type = Some []\<rparr> []) = Some PDF \<and>
    snd (snd (get_filetype example_env (BytesIO ''%PDF-1'')
      \<lparr>uri = ''blob'', mime_type = Some []\<rparr> []))
     = [DetectFilename ''blob'', DetectContent]"
    using get_filetype_mime_first
      [of "\<lparr>uri = ''blob'', mime_type = Some []\<rparr>" "[]"
          example_env MD "BytesIO ''%PDF-1''" "[]"]
    by (simp add: example_env_def BytesIO_def)
  show ?thesis using a b c by simp
qed

subsection \<open>C2: retries of the remote call\<close>

lemma retry_exception_returns:
  "tries < max_tries \<Longrightarrow>
     \<exists>r. retry_exception is_exception max_tries giveup target tries file_handle log = Some r"
proof (induction "max_tries - tries" arbitrary: tries file_handle log)
  case 0
  then show ?case by simp
next
  case (Suc n)
  obtain r fh log1 where t: "target file_handle log = (r, fh, log1)"
    by (cases "target file_handle log") auto
  show ?case
  proof (cases r)
    case (Inr ret)
    with t show ?thesis by (subst retry_exception.simps) simp
  next
    case (Inl e)
    show ?thesis
    proof (cases "\<not> is_exception e \<or> giveup e \<or> tries + 1 = max_tries")
      case True
      with t Inl show ?thesis by (subst retry_exception.simps) auto
    next
      case False
      then have "n = max_tries - (tries + 1)" "tries + 1 < max_tries"
        using Suc.hyps(2) Suc.prems by auto
      from Suc.hyps(1)[OF this] obtain r' where
        "retry_exception is_exception max_tries giveup target (tries + 1) fh
           (log1 @ [Sleep (2 ^ tries)]) = Some r'" by blast
      with t Inl False show ?thesis
        by (subst retry_exception.simps) (cases r', auto)
    qed
  qed
qed

text \<open>The wrapped call always returns or raises: the loop ends.\<close>

lemma read_file_remotely_with_retries_returns:
  "\<exists>r. read_file_remotely_with_retries env file_handle fmt filetype log = Some r"
  unfolding read_file_remotely_with_retries_def by (rule retry_exception_returns) simp

lemma read_file_remotely_posts:
  "read_file_remotely env h fmt ft log = (r, h', log') \<Longrightarrow> posts_sent log' \<le> posts_sent log + 1"
  by (auto simp: read_file_remotely_def Let_def posts_sent_def
      split: option.splits prod.splits sum.splits)

lemma retry_exception_attempts:
  assumes "\<And>h l r h' l'. target h l = (r, h', l') \<Longrightarrow> posts_sent l' \<le> posts_sent l + 1"
  shows "tries < max_tries \<Longrightarrow>
     retry_exception is_exception max_tries giveup target tries file_handle log = Some (r, fh, log') \<Longrightarrow>
     posts_sent log' \<le> posts_sent log + (max_tries - tries)"
proof (induction "max_tries - tries" arbitrary: tries file_handle log)
  case 0
  then show ?case by simp
next
  case (Suc n)
  obtain r1 fh1 log1 where t: "target file_handle log = (r1, fh1, log1)"
    by (cases "target file_handle log") auto
  have p1: "posts_sent log1 \<le> posts_sent log + 1" using assms[OF t] .
  show ?case
  proof (cases r1)
    case (Inr ret)
    with t Suc.prems(2) have "log' = log1"
      by (subst (asm) retry_exception.simps) simp
    with p1 Suc.prems(1) show ?thesis by simp
  next
    case (Inl e)
    show ?thesis
    proof (cases "\<not> is_exception e \<or> giveup e \<or> tries + 1 = max_tries")
      case True
      with t Inl Suc.prems(2) have "log' = log1"
        by (subst (asm) retry_exception.simps) (auto split: if_splits)
      with p1 Suc.prems(1) show ?thesis by simp
    next
      case False
      then have n: "n = max_tries - (tries + 1)" "tries + 1 < max_tries"
        using Suc.hyps(2) Suc.prems(1) by auto
      have "retry_exception is_exception max_tries giveup target (tries + 1) fh1
           (log1 @ [Sleep (2 ^ tries)]) = Some (r, fh, log')"
        using t Inl False Suc.prems(2)
        by (subst (asm) retry_exception.simps) (auto split: if_splits)
      from Suc.hyps(1)[OF n this]
      have "posts_sent log' \<le> posts_sent (log1 @ [Sleep (2 ^ tries)]) + (max_tries - (tries + 1))" .
      moreover have "posts_sent (log1 @ [Sleep (2 ^ tries)]) = posts_sent log1"
        by (simp add: posts_sent_def)
      ultimately show ?thesis using p1 n by simp
    qed
  qed
qed

text \<open>No call sends more than five requests.\<close>

lemma at_most_five_requests:
  "read_file_remotely_with_retries env file_handle fmt filetype log = Some (r, fh, log') \<Longrightarrow>
     posts_sent log' \<le> posts_sent log + 5"
  unfolding read_file_remotely_with_retries_def
  using retry_exception_attempts[where target = "\<lambda>h l. read_file_remotely env h fmt filetype l"
      and tries = 0 and max_tries = 5, OF read_file_remotely_posts]
  by fastforce

text \<open>
  \<^verbatim>\<open>user_error\<close> holds of no exception: a response with a status from 400 to 499 has the
  truth value \<^verbatim>\<open>False\<close>, so the \<^verbatim>\<open>and\<close> of the source stops at the response.
\<close>

lemma user_error_False: "user_error e = False"
  by (cases e)
    (auto simp: user_error_def Response_bool_def Response_ok_def raise_for_status_def
      split: option.splits)

text \<open>Two answers of status 503, then the elements: the third call gives the result.\<close>

lemma server_error_is_retried:
  "(case read_file_remotely_with_retries example_env (BytesIO ''%PDF-1'') example_api PDF [] of
      None \<Rightarrow> False
    | Some (r, fh, log) \<Rightarrow>
        r = Inr ''# Menu\<newline>\<newline>- Buy milk'' \<and> posts_sent log = 3 \<and>
        filter is_Sleep log = [Sleep 1, Sleep 2])"
  by code_simp

text \<open>
  C2, at a remote API that answers every request with status 404: \<^verbatim>\<open>user_error\<close> is
  false of the \<^verbatim>\<open>HTTPError\<close> raised, and \<^verbatim>\<open>_read_file_remotely_with_retries\<close> sends five
  requests, with waits of 1, 2, 4 and 8 in between, before it raises the error. The claim
  (and the docstrings of both functions) has the error raised after the first request.
\<close>

theorem client_error_is_retried:
  "user_error (RequestException ''HTTPError'' (Some \<lparr>status_code = 404, json_body = None\<rparr>))
     = False \<and>
   (case read_file_remotely_with_retries
           (example_env\<lparr>requests_post :=
              (\<lambda>n req. (Inr \<lparr>status_code = 404, json_body = None\<rparr>, 0))\<rparr>)
           (BytesIO ''%PDF-1'') example_api PDF [] of
      None \<Rightarrow> False
    | Some (r, fh, log) \<Rightarrow>
        r = Inl (RequestException ''HTTPError'' (Some \<lparr>status_code = 404, json_body = None\<rparr>)) \<and>
        posts_sent log = 5 \<and>
        filter is_Sleep log = [Sleep 1, Sleep 2, Sleep 4, Sleep 8])"
  by code_simp

subsection \<open>C3: checking a configuration\<close>

text \<open>
  The claim as stated fails: \<^verbatim>\<open>check_config\<close> calls \<^verbatim>\<open>_extract_format\<close> outside its
  \<^verbatim>\<open>try\<close>, and for a stream whose format is not the unstructured one that call raises
  \<^verbatim>\<open>ValueError\<close>.
\<close>

theorem check_config_raises_counterexample:
  "check_config example_env \<lparr>format = OtherFormat ''CsvFormat''\<rparr> []
     = (Inl (ValueError ''Invalid format config: CsvFormat''), [])"
  by (simp add: check_config_def extract_format_def)

text \<open>
  C3, amended. For a configuration whose format is the unstructured one, \<^verbatim>\<open>check_config\<close>
  returns a pair and does not raise: \<^verbatim>\<open>(True, None)\<close> with nothing sent in local mode;
  exactly \<^verbatim>\<open>(False, "Base URL must start with https://")\<close> with nothing sent when
  \<^verbatim>\<open>DEPLOYMENT_MODE\<close> is \<^verbatim>\<open>cloud\<close> in any capitals and the URL of the API does not start
  with \<^verbatim>\<open>https://\<close>; otherwise what the test extraction on the fixed Markdown payload raises
  is returned as \<^verbatim>\<open>(False, message)\<close>, and \<^verbatim>\<open>(True, None)\<close> when it raises nothing.
\<close>

theorem check_config_unstructured:
  assumes "format config = Unstructured fmt"
  shows "(\<exists>b m log1. check_config env config log = (Inr (b, m), log1)) \<and>
     (processing fmt = LocalProcessingConfigModel \<longrightarrow>
        check_config env config log = (Inr (True, None), log)) \<and>
     (\<forall>p. processing fmt = APIProcessing p \<and>
          casefold (case DEPLOYMENT_MODE env of None \<Rightarrow> [] | Some v \<Rightarrow> v) = ''cloud'' \<and>
          \<not> startswith (api_url p) ''https://'' \<longrightarrow>
        check_config env config log =
          (Inr (False, Some ''Base URL must start with https://''), log)) \<and>
     (\<forall>p r fh log1. processing fmt = APIProcessing p \<and>
          \<not> (casefold (case DEPLOYMENT_MODE env of None \<Rightarrow> [] | Some v \<Rightarrow> v) = ''cloud'' \<and>
             \<not> startswith (api_url p) ''https://'') \<and>
          read_file_remotely env (BytesIO ''# Airbyte source connection test'') p MD log
            = (r, fh, log1) \<longrightarrow>
        check_config env config log =
          (case r of Inl e \<Rightarrow> (Inr (False, Some (format_exc env e)), log1)
                   | Inr md \<Rightarrow> (Inr (True, None), log1)))"
proof -
  have ef: "extract_format config = Inr fmt"
    using assms by (simp add: extract_format_def)
  show ?thesis
  proof (cases "processing fmt")
    case LocalProcessingConfigModel
    then show ?thesis using ef by (auto simp: check_config_def)
  next
    case (APIProcessing p)
    obtain r fh log1 where
      rr: "read_file_remotely env (BytesIO ''# Airbyte source connection test'') p MD log
            = (r, fh, log1)"
      by (cases "read_file_remotely env (BytesIO ''# Airbyte source connection test'') p MD log")
        auto
    show ?thesis using ef APIProcessing rr
      by (cases r) (auto simp: check_config_def CLOUD_DEPLOYMENT_MODE_def Let_def)
  qed
qed

text \<open>
  Local mode; a deployment mode of \<^verbatim>\<open>Cloud\<close> with a URL that starts with \<^verbatim>\<open>http://\<close>; and
  an API that answers the test extraction with status 503.
\<close>

theorem check_config_unstructured_witness:
  "check_config example_env
      \<lparr>format = Unstructured \<lparr>skip_unprocessable_file_types = None,
                               processing = LocalProcessingConfigModel\<rparr>\<rparr> []
     = (Inr (True, None), []) \<and>
   check_config example_env
      \<lparr>format = Unstructured \<lparr>skip_unprocessable_file_types = None,
          processing = APIProcessing (example_api\<lparr>api_url := ''http://api.example''\<rparr>)\<rparr>\<rparr> []
     = (Inr (False, Some ''Base URL must start with https://''), []) \<and>
   fst (check_config example_env
      \<lparr>format = Unstructured \<lparr>skip_unprocessable_file_types = None,
          processing = APIProcessing example_api\<rparr>\<rparr> [])
     = Inr (False, Some ''Traceback'')"
proof -
  let ?loc = "\<lparr>skip_unprocessable_file_types = None, processing = LocalProcessingConfigModel\<rparr>"
  let ?http = "\<lparr>skip_unprocessable_file_types = None,
          processing = APIProcessing (example_api\<lparr>api_url := ''http://api.example''\<rparr>)\<rparr>"
  let ?https = "\<lparr>skip_unprocessable_file_types = None, processing = APIProcessing example_api\<rparr>"
  have a: "check_config example_env \<lparr>format = Unstructured ?loc\<rparr> [] = (Inr (True, None), [])"
    using check_config_unstructured [of "\<lparr>format = Unstructured ?loc\<rparr>" ?loc example_env "[]"]
    by simp
  have cf: "casefold ''Cloud'' = ''cloud''"
    by code_simp
  have b: "check_config example_env \<lparr>format = Unstructured ?http\<rparr> []
     = (Inr (False, Some ''Base URL must start with https://''), [])"
    using check_config_unstructured [of "\<lparr>format = Unstructured ?http\<rparr>" ?http example_env "[]"] cf
    by (simp add: example_env_def example_api_def startswith_def)
  obtain r fh log1 where
    rr: "read_file_remotely example_env (BytesIO ''# Airbyte source connection test'')
           example_api MD [] = (r, fh, log1)"
    and r: "r = Inl (RequestException ''HTTPError'' (Some \<lparr>status_code = 503, json_body = None\<rparr>))"
    by (simp add: read_file_remotely_def example_env_def example_api_def Let_def posts_sent_def
        raise_for_status_def)
  have c: "fst (check_config example_env \<lparr>format = Unstructured ?https\<rparr> [])
     = Inr (False, Some ''Traceback'')"
    using check_config_unstructured [of "\<lparr>format = Unstructured ?https\<rparr>" ?https example_env "[]"]
      rr r
    by (simp add: example_env_def example_api_def startswith_def)
  show ?thesis using a b c by simp
qed

subsection \<open>C4 and C7: unsupported files and Markdown files\<close>

lemma get_filetype_handle:
  "get_filetype env file_handle remote_file log = (k, fh, log1) \<Longrightarrow>
     h_content fh = h_content file_handle \<and> (h_pos file_handle = 0 \<longrightarrow> h_pos fh = 0)"
  by (auto simp: get_filetype_def Let_def split: option.splits prod.splits if_splits)

text \<open>
  C4. For a file that the stream reader opens and whose detected type is none of Markdown,
  PDF, DOCX and PPTX (also when no type is detected): with
  \<^verbatim>\<open>skip_unprocessable_file_types\<close> true, \<^verbatim>\<open>parse_records\<close> logs one warning, yields no
  record and raises nothing; with the flag \<^verbatim>\<open>False\<close> or \<^verbatim>\<open>None\<close> it raises a
  \<^verbatim>\<open>RecordParseError\<close> that carries the URI of the file.
\<close>

theorem unsupported_file_policy:
  assumes "format config = Unstructured fmt"
    and "open_file env file = Inr file_handle"
    and "get_filetype env file_handle file log = (filetype, fh, log1)"
    and "filetype \<noteq> Some MD \<and> filetype \<noteq> Some PDF \<and> filetype \<noteq> Some DOCX \<and> filetype \<noteq> Some PPTX"
  shows "(skip_unprocessable_file_types fmt = Some True \<longrightarrow>
            parse_records env config file log =
              Some (Inr [], log1 @ [Warn (''File '' @ uri file @ '' cannot be parsed. Skipping it.'')])) \<and>
         (skip_unprocessable_file_types fmt = Some False \<or> skip_unprocessable_file_types fmt = None \<longrightarrow>
            parse_records env config file log = Some (Inl (RecordParseError (uri file)), log1))"
proof -
  have ef: "extract_format config = Inr fmt"
    using assms(1) by (simp add: extract_format_def)
  have rf: "read_file env file_handle file fmt log =
     (case handle_unprocessable_file file (skip_unprocessable_file_types fmt) log1 of
        (Some e, log2) \<Rightarrow> Some (Inl e, fh, log2)
      | (None, log2) \<Rightarrow> Some (Inr None, fh, log2))"
    using assms(3,4)
    by (cases filetype) (auto simp: read_file_def supported_file_types_def)
  show ?thesis
    using ef assms(2) rf
    by (auto simp: parse_records_def handle_unprocessable_file_def)
qed

text \<open>A CSV file, with the flag set and with the flag unset.\<close>

theorem unsupported_file_policy_witness:
  "parse_records example_env
     \<lparr>format = Unstructured \<lparr>skip_unprocessable_file_types = Some True,
                              processing = APIProcessing example_api\<rparr>\<rparr>
     \<lparr>uri = ''table.csv'', mime_type = None\<rparr> []
    = Some (Inr [], [DetectFilename ''table.csv'',
                     Warn ''File table.csv cannot be parsed. Skipping it.'']) \<and>
   parse_records example_env
     \<lparr>format = Unstructured \<lparr>skip_unprocessable_file_types = None,
                              processing = APIProcessing example_api\<rparr>\<rparr>
     \<lparr>uri = ''table.csv'', mime_type = None\<rparr> []
    = Some (Inl (RecordParseError ''table.csv''), [DetectFilename ''table.csv''])"
proof -
  let ?f = "\<lparr>uri = ''table.csv'', mime_type = None\<rparr>"
  let ?skip = "\<lparr>skip_unprocessable_file_types = Some True, processing = APIProcessing example_api\<rparr>"
  let ?fail = "\<lparr>skip_unprocessable_file_types = None, processing = APIProcessing example_api\<rparr>"
  have o: "open_file example_env ?f = Inr (BytesIO ''a,b'')"
    by (simp add: example_env_def)
  have g: "get_filetype example_env (BytesIO ''a,b'') ?f []
     = (Some (OtherFileType ''CSV''), BytesIO ''a,b'', [DetectFilename ''table.csv''])"
    by (simp add: get_filetype_def example_env_def BytesIO_def)
  have a: "parse_records example_env \<lparr>format = Unstructured ?skip\<rparr> ?f []
    = Some (Inr [], [DetectFilename ''table.csv''] @
        [Warn (''File '' @ uri ?f @ '' cannot be parsed. Skipping it.'')])"
    using unsupported_file_policy [of "\<lparr>format = Unstructured ?skip\<rparr>" ?skip, OF _ o g]
    by simp
  have b: "parse_records example_env \<lparr>format = Unstructured ?fail\<rparr> ?f []
    = Some (Inl (RecordParseError (uri ?f)), [DetectFilename ''table.csv''])"
    using unsupported_file_policy [of "\<lparr>format = Unstructured ?fail\<rparr>" ?fail, OF _ o g]
    by simp
  show ?thesis using a b by simp
qed

text \<open>
  C7. For a handle at its start and a file detected as Markdown, \<^verbatim>\<open>_read_file\<close> returns
  the bytes of the file as they are when they are valid UTF-8 and raises
  \<^verbatim>\<open>UnicodeDecodeError\<close> when they are not; nothing is parsed or sent (the log is the one
  of the detection), the processing mode does not change the result, and
  \<^verbatim>\<open>parse_records\<close> yields the one record of the text or lets the error through.
\<close>

theorem markdown_is_decoded:
  assumes "get_filetype env file_handle remote_file log = (Some MD, fh, log1)"
    and "h_pos file_handle = 0"
  shows "read_file env file_handle remote_file fmt log =
           (if utf8_valid (h_content file_handle)
            then Some (Inr (Some (h_content file_handle)),
                       fh\<lparr>h_pos := length (h_content file_handle)\<rparr>, log1)
            else Some (Inl UnicodeDecodeError,
                       fh\<lparr>h_pos := length (h_content file_handle)\<rparr>, log1)) \<and>
         read_file env file_handle remote_file (fmt\<lparr>processing := mode\<rparr>) log =
           read_file env file_handle remote_file fmt log \<and>
         (format config = Unstructured fmt \<and> open_file env remote_file = Inr file_handle \<longrightarrow>
            parse_records env config remote_file log =
              (if utf8_valid (h_content file_handle)
               then Some (Inr [[(''content'', h_content file_handle),
                                (''document_key'', uri remote_file)]], log1)
               else Some (Inl UnicodeDecodeError, log1)))"
proof -
  have h: "h_content fh = h_content file_handle" "h_pos fh = 0"
    using get_filetype_handle[OF assms(1)] assms(2) by auto
  have ra: "read_all fh = (h_content file_handle, fh\<lparr>h_pos := length (h_content file_handle)\<rparr>)"
    using h by (simp add: read_all_def)
  have rf: "\<And>f. read_file env file_handle remote_file f log =
           (if utf8_valid (h_content file_handle)
            then Some (Inr (Some (h_content file_handle)),
                       fh\<lparr>h_pos := length (h_content file_handle)\<rparr>, log1)
            else Some (Inl UnicodeDecodeError,
                       fh\<lparr>h_pos := length (h_content file_handle)\<rparr>, log1))"
    using assms(1) ra by (simp add: read_file_def optional_decode_def)
  have pr: "parse_records env config remote_file log =
              (if utf8_valid (h_content file_handle)
               then Some (Inr [[(''content'', h_content file_handle),
                                (''document_key'', uri remote_file)]], log1)
               else Some (Inl UnicodeDecodeError, log1))"
    if "format config = Unstructured fmt" "open_file env remote_file = Inr file_handle"
    using that rf[of fmt] by (simp add: parse_records_def extract_format_def)
  show ?thesis using rf pr by simp
qed

text \<open>
  A Markdown file read in local mode, and two bytes that are not UTF-8 under the MIME type
  of Markdown in API mode.
\<close>

theorem markdown_is_decoded_witness:
  "parse_records example_env
     \<lparr>format = Unstructured \<lparr>skip_unprocessable_file_types = None,
                              processing = LocalProcessingConfigModel\<rparr>\<rparr>
     \<lparr>uri = ''notes.md'', mime_type = None\<rparr> []
    = Some (Inr [[(''content'', ''# Hi''), (''document_key'', ''notes.md'')]],
            [DetectFilename ''notes.md'']) \<and>
   read_file example_env (BytesIO [CHR ''#'', CHR 0xFF])
     \<lparr>uri = ''report.docx'', mime_type = Some ''text/markdown''\<rparr>
     \<lparr>skip_unprocessable_file_types = None, processing = APIProcessing example_api\<rparr> []
    = Some (Inl UnicodeDecodeError, (BytesIO [CHR ''#'', CHR 0xFF])\<lparr>h_pos := 2\<rparr>, [])"
proof -
  let ?f = "\<lparr>uri = ''notes.md'', mime_type = None\<rparr>"
  let ?fmt = "\<lparr>skip_unprocessable_file_types = None, processing = LocalProcessingConfigModel\<rparr>"
  let ?g = "\<lparr>uri = ''report.docx'', mime_type = Some ''text/markdown''\<rparr>"
  let ?api = "\<lparr>skip_unprocessable_file_types = None, processing = APIProcessing example_api\<rparr>"
  have o: "open_file example_env ?f = Inr (BytesIO ''# Hi'')"
    by (simp add: example_env_def)
  have g: "get_filetype example_env (BytesIO ''# Hi'') ?f []
     = (Some MD, BytesIO ''# Hi'', [DetectFilename ''notes.md''])"
    by (simp add: get_filetype_def example_env_def BytesIO_def)
  have p0: "h_pos (BytesIO ''# Hi'') = 0" "h_pos (BytesIO [CHR ''#'', CHR 0xFF]) = 0"
    by (simp_all add: BytesIO_def)
  have v: "utf8_valid ''# Hi''" "\<not> utf8_valid [CHR ''#'', CHR 0xFF]"
    by (simp_all add: in_range_def)
  have a: "parse_records example_env \<lparr>format = Unstructured ?fmt\<rparr> ?f []
    = Some (Inr [[(''content'', ''# Hi''), (''document_key'', ''notes.md'')]],
            [DetectFilename ''notes.md''])"
    using markdown_is_decoded [OF g p0(1), of ?fmt LocalProcessingConfigModel
        "\<lparr>format = Unstructured ?fmt\<rparr>"] o v
    by (simp add: BytesIO_def)
  have g2: "get_filetype example_env (BytesIO [CHR ''#'', CHR 0xFF]) ?g []
     = (Some MD, BytesIO [CHR ''#'', CHR 0xFF], [])"
    by (simp add: get_filetype_def example_env_def)
  have b: "read_file example_env (BytesIO [CHR ''#'', CHR 0xFF]) ?g ?api []
    = Some (Inl UnicodeDecodeError, (BytesIO [CHR ''#'', CHR 0xFF])\<lparr>h_pos := 2\<rparr>, [])"
    using markdown_is_decoded [OF g2 p0(2), of ?api LocalProcessingConfigModel
        "\<lparr>format = Unstructured ?api\<rparr>"] v
    by (simp add: BytesIO_def)
  show ?thesis using a b by simp
qed

subsection \<open>C9: the changelog of the build script\<close>

lemma a_build_loop_Inr:
  "fst (a_build_loop env pairs succ log) = Inr res \<longleftrightarrow>
     (\<forall>(p, i) \<in> set pairs. generate_dockerfile_raises env p i = None \<and>
         (run_sanity_checks_for_version env p i = None \<or>
          (\<exists>m. run_sanity_checks_for_version env p i = Some (SanityCheckError m)))) \<and>
     res = succ @ map (\<lambda>(p, i). run_sanity_checks_for_version env p i = None) pairs"
proof (induction pairs arbitrary: succ log)
  case Nil
  show ?case by auto
next
  case (Cons a pairs)
  obtain p i where a: "a = (p, i)" by (cases a)
  show ?case
  proof (cases "generate_dockerfile_raises env p i")
    case (Some e)
    then show ?thesis using a by simp
  next
    case None
    show ?thesis
    proof (cases "run_sanity_checks_for_version env p i")
      case n: None
      show ?thesis using a None n Cons.IH
        by (simp add: run_sanity_checks_def)
    next
      case (Some e)
      show ?thesis using a None Some Cons.IH
        by (cases e) (simp_all add: run_sanity_checks_def)
    qed
  qed
qed

lemma a_build_loop_no_changelog:
  "WriteChangelog \<notin> set log \<Longrightarrow> WriteChangelog \<notin> set (snd (a_build_loop env pairs succ log))"
proof (induction pairs arbitrary: succ log)
  case Nil
  then show ?case by simp
next
  case (Cons a pairs)
  obtain p i where a: "a = (p, i)" by (cases a)
  show ?case
  proof (cases "generate_dockerfile_raises env p i")
    case (Some e)
    then show ?thesis using a Cons.prems by simp
  next
    case None
    show ?thesis
    proof (cases "run_sanity_checks_for_version env p i")
      case n: None
      show ?thesis using a None n Cons.IH Cons.prems
        by (simp add: run_sanity_checks_def)
    next
      case (Some e)
      show ?thesis using a None Some Cons.IH Cons.prems
        by (cases e) (simp_all add: run_sanity_checks_def)
    qed
  qed
qed

lemma a_build_no_changelog: "WriteChangelog \<notin> set (snd (a_build env []))"
proof -
  let ?l0 = "if DEBUG env then [] else [DaggerLogsMsg]"
  let ?ps = "List.product (SUPPORTED_PLATFORMS env) (ALL_BASE_IMAGES env)"
  obtain r l where rl: "a_build_loop env ?ps [] ?l0 = (r, l)"
    by (cases "a_build_loop env ?ps [] ?l0")
  have "WriteChangelog \<notin> set ?l0" by simp
  then have "WriteChangelog \<notin> set (snd (a_build_loop env ?ps [] ?l0))"
    by (rule a_build_loop_no_changelog)
  then have "WriteChangelog \<notin> set l" using rl by simp
  moreover have "snd (a_build env []) = l"
    using rl by (cases r; cases "DEBUG env") (simp_all add: a_build_def Let_def)
  ultimately show ?thesis by simp
qed

lemma a_build_Inr:
  "fst (a_build env log) = Inr b \<longleftrightarrow>
     (\<forall>(p, i) \<in> set (List.product (SUPPORTED_PLATFORMS env) (ALL_BASE_IMAGES env)).
         generate_dockerfile_raises env p i = None \<and>
         (run_sanity_checks_for_version env p i = None \<or>
          (\<exists>m. run_sanity_checks_for_version env p i = Some (SanityCheckError m)))) \<and>
     b = (\<forall>(p, i) \<in> set (List.product (SUPPORTED_PLATFORMS env) (ALL_BASE_IMAGES env)).
            run_sanity_checks_for_version env p i = None)"
proof -
  let ?l0 = "if DEBUG env then log else log @ [DaggerLogsMsg]"
  let ?ps = "List.product (SUPPORTED_PLATFORMS env) (ALL_BASE_IMAGES env)"
  obtain r l where rl: "a_build_loop env ?ps [] ?l0 = (r, l)"
    by (cases "a_build_loop env ?ps [] ?l0")
  have all: "list_all (\<lambda>b. b) (map (\<lambda>(p, i). run_sanity_checks_for_version env p i = None) ?ps)
     = (\<forall>(p, i) \<in> set ?ps. run_sanity_checks_for_version env p i = None)"
    by (auto simp: list_all_iff)
  show ?thesis
  proof (cases r)
    case (Inl e)
    have "\<And>res. fst (a_build_loop env ?ps [] ?l0) \<noteq> Inr res" using rl Inl by simp
    then have "\<not> (\<forall>(p, i) \<in> set ?ps. generate_dockerfile_raises env p i = None \<and>
         (run_sanity_checks_for_version env p i = None \<or>
          (\<exists>m. run_sanity_checks_for_version env p i = Some (SanityCheckError m))))"
      using a_build_loop_Inr[of env ?ps "[]" ?l0] by blast
    moreover have "fst (a_build env log) = Inl e"
      using rl Inl by (cases "DEBUG env") (simp_all add: a_build_def Let_def)
    ultimately show ?thesis by simp
  next
    case (Inr res)
    then have "fst (a_build_loop env ?ps [] ?l0) = Inr res" using rl by simp
    then have ok: "(\<forall>(p, i) \<in> set ?ps. generate_dockerfile_raises env p i = None \<and>
         (run_sanity_checks_for_version env p i = None \<or>
          (\<exists>m. run_sanity_checks_for_version env p i = Some (SanityCheckError m))))"
      and res: "res = map (\<lambda>(p, i). run_sanity_checks_for_version env p i = None) ?ps"
      using a_build_loop_Inr[of env ?ps "[]" ?l0 res] by auto
    have "fst (a_build env log) = Inr (list_all (\<lambda>b. b) res)"
      using rl Inr by (cases "DEBUG env") (simp_all add: a_build_def Let_def)
    then show ?thesis using ok res all by auto
  qed
qed

text \<open>
  C9. When \<^verbatim>\<open>a_build\<close> returns, it returns the conjunction of the results of the sanity
  checks of all pairs of a platform and a base image. In a run of \<^verbatim>\<open>main\<close> the changelog
  is written exactly when \<^verbatim>\<open>a_build\<close> returns \<^verbatim>\<open>True\<close>, that is exactly when for every
  pair the Dockerfile is generated and the sanity checks raise nothing; when \<^verbatim>\<open>a_build\<close>
  returns \<^verbatim>\<open>False\<close>, \<^verbatim>\<open>main\<close> exits with status 1.
\<close>

theorem changelog_iff_all_checks_pass:
  "(fst (a_build env log) = Inr b \<longrightarrow>
      b = (\<forall>(p, i) \<in> set (List.product (SUPPORTED_PLATFORMS env) (ALL_BASE_IMAGES env)).
             run_sanity_checks_for_version env p i = None)) \<and>
   (WriteChangelog \<in> set (snd (main env [])) \<longleftrightarrow> fst (a_build env []) = Inr True) \<and>
   (WriteChangelog \<in> set (snd (main env [])) \<longleftrightarrow>
      (\<forall>(p, i) \<in> set (List.product (SUPPORTED_PLATFORMS env) (ALL_BASE_IMAGES env)).
          generate_dockerfile_raises env p i = None \<and>
          run_sanity_checks_for_version env p i = None)) \<and>
   (fst (a_build env []) = Inr False \<longrightarrow> fst (main env []) = Exited 1)"
proof -
  have 1: "fst (a_build env log) = Inr b \<longrightarrow>
      b = (\<forall>(p, i) \<in> set (List.product (SUPPORTED_PLATFORMS env) (ALL_BASE_IMAGES env)).
             run_sanity_checks_for_version env p i = None)"
    using a_build_Inr[of env log b] by blast
  obtain r l where rl: "a_build env [] = (r, l)" by (cases "a_build env []")
  have nl: "WriteChangelog \<notin> set l" using a_build_no_changelog[of env] rl by simp
  have 2: "WriteChangelog \<in> set (snd (main env [])) \<longleftrightarrow> fst (a_build env []) = Inr True"
  proof (cases r)
    case (Inl e)
    then show ?thesis using rl nl by (cases e) (simp_all add: main_def)
  next
    case (Inr s)
    then show ?thesis using rl nl by (simp add: main_def Let_def)
  qed
  have 3: "fst (a_build env []) = Inr True \<longleftrightarrow>
      (\<forall>(p, i) \<in> set (List.product (SUPPORTED_PLATFORMS env) (ALL_BASE_IMAGES env)).
          generate_dockerfile_raises env p i = None \<and>
          run_sanity_checks_for_version env p i = None)"
    using a_build_Inr[of env "[]" True] by auto
  have 4: "fst (a_build env []) = Inr False \<longrightarrow> fst (main env []) = Exited 1"
    using rl by (auto simp: main_def Let_def)
  show ?thesis using 1 2 3 4 by blast
qed

text \<open>
  Two platforms and two images: with one failing sanity check nothing is written and the
  status is 1; with none failing the changelog is written.
\<close>

theorem changelog_iff_all_checks_pass_witness:
  "fst (a_build example_build []) = Inr False \<and>
   WriteChangelog \<notin> set (snd (main example_build [])) \<and>
   fst (main example_build []) = Exited 1 \<and>
   fst (a_build (example_build\<lparr>run_sanity_checks_for_version := (\<lambda>p i. None)\<rparr>) []) = Inr True \<and>
   WriteChangelog \<in> set (snd (main (example_build\<lparr>run_sanity_checks_for_version := (\<lambda>p i. None)\<rparr>) []))"
proof -
  let ?good = "example_build\<lparr>run_sanity_checks_for_version := (\<lambda>p i. None)\<rparr>"
  have a: "fst (a_build example_build []) = Inr False"
    by code_simp
  have b: "fst (a_build ?good []) = Inr True"
    by code_simp
  have c: "WriteChangelog \<notin> set (snd (main example_build [])) \<and> fst (main example_build []) = Exited 1"
    using changelog_iff_all_checks_pass [of example_build "[]" False] a by simp
  have d: "WriteChangelog \<in> set (snd (main ?good []))"
    using changelog_iff_all_checks_pass [of ?good "[]" True] b by simp
  show ?thesis using a b c d by simp
qed

end
